theory Spec2Isabelle
  imports Main "HOL-Library.Word"
begin

unbundle bit_operations_syntax

section \<open>Data model\<close>

text \<open>
  The driver (i2clcd.go) talks to an HD44780-style display through a one-byte I2C
  expander. Go's \<open>byte\<close>/\<open>uint8\<close> is an \<open>8 word\<close>, so shifts, \<open>+\<close>, \<open>-\<close> and \<open>*\<close> wrap
  as they do in Go. A \<open>rune\<close> is Go's \<open>int32\<close>.
\<close>

type_synonym byte = "8 word"
type_synonym rune = "32 word"

text \<open>
  The two things the driver does to the outside are \<open>lcd.bus.Tx(addr, w, nil)\<close> and
  \<open>time.Sleep(n * time.Millisecond)\<close>. Both are recorded, in program order, in one
  trace: \<open>Tx a bs\<close> is an attempted bus write of the bytes \<open>bs\<close> to address \<open>a\<close>,
  \<open>Sleep n\<close> a delay of \<open>n\<close> milliseconds.
\<close>

datatype event = Tx "16 word" "byte list" | Sleep nat

text \<open>The only error the bus transport can return.\<close>

datatype tx_error = TransportFailure

text \<open>A Go run-time panic; the driver can only raise the slice index one.\<close>

datatype runtime_error = IndexOutOfRange

text \<open>
  The environment: the trace so far, and a fault script that says, for each coming bus
  transaction in turn, whether it fails (\<open>True\<close>); once the script is used up every
  transaction succeeds.
\<close>

record world =
  trace :: "event list"
  faults :: "bool list"

text \<open>
  The struct \<open>I2CLCD\<close>. Its field \<open>bus\<close> is a pointer to the external bus, which lives
  in the \<open>world\<close> that every operation threads through.
\<close>

record I2CLCD =
  addr :: byte
  cols :: byte
  rows :: byte
  backlight :: bool
  display :: bool
  cursor :: bool
  blink :: bool

subsection \<open>Constants\<close>

definition LCD_CLEARDISPLAY :: byte where "LCD_CLEARDISPLAY = 0x01"
definition LCD_RETURNHOME :: byte where "LCD_RETURNHOME = 0x02"
definition LCD_ENTRYMODESET :: byte where "LCD_ENTRYMODESET = 0x04"
definition LCD_DISPLAYCONTROL :: byte where "LCD_DISPLAYCONTROL = 0x08"
definition LCD_CURSORSHIFT :: byte where "LCD_CURSORSHIFT = 0x10"
definition LCD_FUNCTIONSET :: byte where "LCD_FUNCTIONSET = 0x20"
definition LCD_SETCGRAMADDR :: byte where "LCD_SETCGRAMADDR = 0x40"
definition LCD_SETDDRAMADDR :: byte where "LCD_SETDDRAMADDR = 0x80"

definition LCD_ENTRYRIGHT :: byte where "LCD_ENTRYRIGHT = 0x00"
definition LCD_ENTRYLEFT :: byte where "LCD_ENTRYLEFT = 0x02"
definition LCD_ENTRYSHIFTINCREMENT :: byte where "LCD_ENTRYSHIFTINCREMENT = 0x01"
definition LCD_ENTRYSHIFTDECREMENT :: byte where "LCD_ENTRYSHIFTDECREMENT = 0x00"

definition LCD_DISPLAYON :: byte where "LCD_DISPLAYON = 0x04"
definition LCD_DISPLAYOFF :: byte where "LCD_DISPLAYOFF = 0x00"
definition LCD_CURSORON :: byte where "LCD_CURSORON = 0x02"
definition LCD_CURSOROFF :: byte where "LCD_CURSOROFF = 0x00"
definition LCD_BLINKON :: byte where "LCD_BLINKON = 0x01"
definition LCD_BLINKOFF :: byte where "LCD_BLINKOFF = 0x00"

definition LCD_BACKLIGHT :: byte where "LCD_BACKLIGHT = 0x08"
definition LCD_NOBACKLIGHT :: byte where "LCD_NOBACKLIGHT = 0x00"

definition LCD_MOVELEFT :: byte where "LCD_MOVELEFT = 0x00"
definition LCD_MOVERIGHT :: byte where "LCD_MOVERIGHT = 0x04"
definition LCD_SCROLLLEFT :: byte where "LCD_SCROLLLEFT = 0x18"
definition LCD_SCROLLRIGHT :: byte where "LCD_SCROLLRIGHT = 0x1C"

section \<open>The environment's primitives\<close>

text \<open>
  \<open>machine.I2C.Tx\<close>: the attempt is appended to the trace, and the answer is the next
  entry of the fault script (\<open>None\<close> is Go's \<open>nil\<close> error).
\<close>

definition bus_Tx :: "16 word \<Rightarrow> byte list \<Rightarrow> world \<Rightarrow> tx_error option \<times> world" where
  "bus_Tx a bs w =
     (case faults w of
        [] \<Rightarrow> (None, w\<lparr>trace := trace w @ [Tx a bs]\<rparr>)
      | f # fs \<Rightarrow> (if f then Some TransportFailure else None,
                  w\<lparr>trace := trace w @ [Tx a bs], faults := fs\<rparr>))"

text \<open>\<open>time.Sleep(ms * time.Millisecond)\<close>.\<close>

definition time_Sleep :: "nat \<Rightarrow> world \<Rightarrow> world" where
  "time_Sleep ms w = w\<lparr>trace := trace w @ [Sleep ms]\<rparr>"

section \<open>The driver\<close>

text \<open>\<open>NewI2CLCD(bus, addr, cols, rows)\<close>.\<close>

definition NewI2CLCD :: "byte \<Rightarrow> byte \<Rightarrow> byte \<Rightarrow> I2CLCD" where
  "NewI2CLCD a c r =
     \<lparr>addr = a, cols = c, rows = r,
      backlight = True, display = True, cursor = False, blink = False\<rparr>"

text \<open>
  \<open>expanderWrite\<close>: the statement \<open>lcd.bus.Tx(uint16(lcd.addr), []byte{data | backlight}, nil)\<close>
  drops the error that \<open>Tx\<close> returns, hence the \<open>snd\<close>.
\<close>

definition expanderWrite :: "I2CLCD \<Rightarrow> byte \<Rightarrow> world \<Rightarrow> world" where
  "expanderWrite lcd data w =
     (let bl = (if backlight lcd then LCD_BACKLIGHT else 0x00)
      in snd (bus_Tx (ucast (addr lcd)) [data OR bl] w))"

definition pulseEnable :: "I2CLCD \<Rightarrow> byte \<Rightarrow> world \<Rightarrow> world" where
  "pulseEnable lcd data w =
     (let w1 = expanderWrite lcd (data OR 0x04) w;
          w2 = time_Sleep 1 w1;
          w3 = expanderWrite lcd (data AND NOT 0x04) w2
      in time_Sleep 1 w3)"

definition write4Bits :: "I2CLCD \<Rightarrow> byte \<Rightarrow> world \<Rightarrow> world" where
  "write4Bits lcd v w = pulseEnable lcd v (expanderWrite lcd v w)"

definition send :: "I2CLCD \<Rightarrow> byte \<Rightarrow> byte \<Rightarrow> world \<Rightarrow> world" where
  "send lcd v m w =
     (let highNibble = v AND 0xF0;
          lowNibble = push_bit 4 v AND 0xF0;
          w1 = write4Bits lcd (highNibble OR m) w
      in write4Bits lcd (lowNibble OR m) w1)"

definition sendCommand :: "I2CLCD \<Rightarrow> byte \<Rightarrow> world \<Rightarrow> world" where
  "sendCommand lcd cmd w = send lcd cmd 0 w"

definition sendData :: "I2CLCD \<Rightarrow> byte \<Rightarrow> world \<Rightarrow> world" where
  "sendData lcd d w = send lcd d 1 w"

subsection \<open>Public operations\<close>

text \<open>
  Methods that assign to a field of the session return the updated session with the
  world; the others return the world only.
\<close>

definition Backlight :: "I2CLCD \<Rightarrow> world \<Rightarrow> I2CLCD \<times> world" where
  "Backlight lcd w =
     (let lcd1 = lcd\<lparr>backlight := True\<rparr>
      in (lcd1, expanderWrite lcd1 0x00 w))"

definition NoBacklight :: "I2CLCD \<Rightarrow> world \<Rightarrow> I2CLCD \<times> world" where
  "NoBacklight lcd w =
     (let lcd1 = lcd\<lparr>backlight := False\<rparr>
      in (lcd1, expanderWrite lcd1 0x00 w))"

definition Init :: "I2CLCD \<Rightarrow> world \<Rightarrow> I2CLCD \<times> world" where
  "Init lcd w0 =
     (let w1 = time_Sleep 50 w0;
          w2 = sendCommand lcd 0x03 w1;
          w3 = time_Sleep 5 w2;
          w4 = sendCommand lcd 0x03 w3;
          w5 = time_Sleep 5 w4;
          w6 = sendCommand lcd 0x03 w5;
          w7 = time_Sleep 1 w6;
          w8 = sendCommand lcd 0x02 w7;
          functionSet0 = LCD_FUNCTIONSET OR 0x20;
          functionSet = (if rows lcd > 1 then functionSet0 OR 0x08 else functionSet0);
          w9 = sendCommand lcd functionSet w8;
          w10 = sendCommand lcd (LCD_DISPLAYCONTROL OR LCD_DISPLAYON) w9;
          w11 = sendCommand lcd (LCD_ENTRYMODESET OR LCD_ENTRYLEFT) w10;
          w12 = sendCommand lcd LCD_CLEARDISPLAY w11;
          w13 = time_Sleep 2 w12
      in Backlight lcd w13)"

definition Clear :: "I2CLCD \<Rightarrow> world \<Rightarrow> world" where
  "Clear lcd w = time_Sleep 2 (sendCommand lcd LCD_CLEARDISPLAY w)"

definition Home :: "I2CLCD \<Rightarrow> world \<Rightarrow> world" where
  "Home lcd w = time_Sleep 2 (sendCommand lcd LCD_RETURNHOME w)"

text \<open>
  \<open>Print\<close>: \<open>for _, char := range text\<close> walks the code points of the string; the
  model takes the string as that sequence of runes. \<open>byte(char)\<close> keeps the low 8 bits.
\<close>

fun Print :: "I2CLCD \<Rightarrow> rune list \<Rightarrow> world \<Rightarrow> world" where
  "Print lcd [] w = w"
| "Print lcd (char # text) w = Print lcd text (sendData lcd (ucast char) w)"

definition SetCursor :: "I2CLCD \<Rightarrow> byte \<Rightarrow> byte \<Rightarrow> world \<Rightarrow> world" where
  "SetCursor lcd col row w =
     (let row1 = (if row \<ge> rows lcd then rows lcd - 1 else row);
          a = col + (row1 * 0x40)
      in sendCommand lcd (LCD_SETDDRAMADDR OR a) w)"

definition DisplayOn :: "I2CLCD \<Rightarrow> world \<Rightarrow> I2CLCD \<times> world" where
  "DisplayOn lcd w =
     (let lcd1 = lcd\<lparr>display := True\<rparr>
      in (lcd1, sendCommand lcd1 (LCD_DISPLAYCONTROL OR LCD_DISPLAYON) w))"

definition DisplayOff :: "I2CLCD \<Rightarrow> world \<Rightarrow> I2CLCD \<times> world" where
  "DisplayOff lcd w =
     (let lcd1 = lcd\<lparr>display := False\<rparr>
      in (lcd1, sendCommand lcd1 (LCD_DISPLAYCONTROL OR LCD_DISPLAYOFF) w))"

definition CursorOn :: "I2CLCD \<Rightarrow> world \<Rightarrow> I2CLCD \<times> world" where
  "CursorOn lcd w =
     (let lcd1 = lcd\<lparr>cursor := True\<rparr>
      in (lcd1, sendCommand lcd1 (LCD_DISPLAYCONTROL OR LCD_DISPLAYON OR LCD_CURSORON) w))"

definition CursorOff :: "I2CLCD \<Rightarrow> world \<Rightarrow> I2CLCD \<times> world" where
  "CursorOff lcd w =
     (let lcd1 = lcd\<lparr>cursor := False\<rparr>
      in (lcd1, sendCommand lcd1 (LCD_DISPLAYCONTROL OR LCD_DISPLAYON OR LCD_CURSOROFF) w))"

definition BlinkOn :: "I2CLCD \<Rightarrow> world \<Rightarrow> I2CLCD \<times> world" where
  "BlinkOn lcd w =
     (let lcd1 = lcd\<lparr>blink := True\<rparr>
      in (lcd1, sendCommand lcd1 (LCD_DISPLAYCONTROL OR LCD_DISPLAYON OR LCD_BLINKON) w))"

definition BlinkOff :: "I2CLCD \<Rightarrow> world \<Rightarrow> I2CLCD \<times> world" where
  "BlinkOff lcd w =
     (let lcd1 = lcd\<lparr>blink := False\<rparr>
      in (lcd1, sendCommand lcd1 (LCD_DISPLAYCONTROL OR LCD_DISPLAYON OR LCD_BLINKOFF) w))"

text \<open>
  \<open>CreateChar\<close>: the loop \<open>for i := 0; i < 8; i++ { lcd.sendData(charmap[i]) }\<close>.
  Indexing a slice at or beyond its length panics in Go; the panic is the \<open>Inl\<close> result,
  returned with the world as it is at that moment.
\<close>

function CreateChar_loop ::
  "I2CLCD \<Rightarrow> byte list \<Rightarrow> nat \<Rightarrow> world \<Rightarrow> (runtime_error + unit) \<times> world" where
  "CreateChar_loop lcd charmap i w =
     (if i < 8 then
        (if i < length charmap
         then CreateChar_loop lcd charmap (i + 1) (sendData lcd (charmap ! i) w)
         else (Inl IndexOutOfRange, w))
      else (Inr (), w))"
  by pat_completeness auto
termination
  by (relation "measure (\<lambda>(lcd, charmap, i, w). 8 - i)") auto

declare CreateChar_loop.simps [simp del]

definition CreateChar ::
  "I2CLCD \<Rightarrow> byte \<Rightarrow> byte list \<Rightarrow> world \<Rightarrow> (runtime_error + unit) \<times> world" where
  "CreateChar lcd location charmap w =
     (let location1 = location AND 0x07;
          w1 = sendCommand lcd (LCD_SETCGRAMADDR OR push_bit 3 location1) w
      in CreateChar_loop lcd charmap 0 w1)"

definition ScrollDisplayLeft :: "I2CLCD \<Rightarrow> world \<Rightarrow> world" where
  "ScrollDisplayLeft lcd w = sendCommand lcd LCD_SCROLLLEFT w"

definition ScrollDisplayRight :: "I2CLCD \<Rightarrow> world \<Rightarrow> world" where
  "ScrollDisplayRight lcd w = sendCommand lcd LCD_SCROLLRIGHT w"

definition LeftToRight :: "I2CLCD \<Rightarrow> world \<Rightarrow> world" where
  "LeftToRight lcd w = sendCommand lcd (LCD_ENTRYMODESET OR LCD_ENTRYLEFT) w"

definition RightToLeft :: "I2CLCD \<Rightarrow> world \<Rightarrow> world" where
  "RightToLeft lcd w = sendCommand lcd (LCD_ENTRYMODESET OR LCD_ENTRYRIGHT) w"

definition ShiftIncrement :: "I2CLCD \<Rightarrow> world \<Rightarrow> world" where
  "ShiftIncrement lcd w = sendCommand lcd (LCD_ENTRYMODESET OR LCD_ENTRYSHIFTINCREMENT) w"

definition ShiftDecrement :: "I2CLCD \<Rightarrow> world \<Rightarrow> world" where
  "ShiftDecrement lcd w = sendCommand lcd (LCD_ENTRYMODESET OR LCD_ENTRYSHIFTDECREMENT) w"

definition Autoscroll :: "I2CLCD \<Rightarrow> world \<Rightarrow> world" where
  "Autoscroll lcd w = sendCommand lcd (LCD_ENTRYMODESET OR LCD_ENTRYSHIFTINCREMENT) w"

definition NoAutoscroll :: "I2CLCD \<Rightarrow> world \<Rightarrow> world" where
  "NoAutoscroll lcd w = sendCommand lcd (LCD_ENTRYMODESET OR LCD_ENTRYSHIFTDECREMENT) w"

subsection \<open>The public surface as one function\<close>

text \<open>
  One constructor per exported method, and \<open>call\<close>, which runs the method and returns
  how it ended (\<open>Inr ()\<close>: it returned; \<open>Inl e\<close>: it panicked), the session and the world
  afterwards. No method has a result value in the source.
\<close>

datatype op =
    OpInit | OpClear | OpHome | OpPrint "rune list" | OpSetCursor byte byte
  | OpDisplayOn | OpDisplayOff | OpCursorOn | OpCursorOff | OpBlinkOn | OpBlinkOff
  | OpBacklight | OpNoBacklight | OpCreateChar byte "byte list"
  | OpScrollDisplayLeft | OpScrollDisplayRight | OpLeftToRight | OpRightToLeft
  | OpShiftIncrement | OpShiftDecrement | OpAutoscroll | OpNoAutoscroll

definition returned :: "I2CLCD \<times> world \<Rightarrow> (runtime_error + unit) \<times> I2CLCD \<times> world" where
  "returned r = (Inr (), r)"

fun call :: "op \<Rightarrow> I2CLCD \<Rightarrow> world \<Rightarrow> (runtime_error + unit) \<times> I2CLCD \<times> world" where
  "call OpInit lcd w = returned (Init lcd w)"
| "call OpClear lcd w = returned (lcd, Clear lcd w)"
| "call OpHome lcd w = returned (lcd, Home lcd w)"
| "call (OpPrint text) lcd w = returned (lcd, Print lcd text w)"
| "call (OpSetCursor col row) lcd w = returned (lcd, SetCursor lcd col row w)"
| "call OpDisplayOn lcd w = returned (DisplayOn lcd w)"
| "call OpDisplayOff lcd w = returned (DisplayOff lcd w)"
| "call OpCursorOn lcd w = returned (CursorOn lcd w)"
| "call OpCursorOff lcd w = returned (CursorOff lcd w)"
| "call OpBlinkOn lcd w = returned (BlinkOn lcd w)"
| "call OpBlinkOff lcd w = returned (BlinkOff lcd w)"
| "call OpBacklight lcd w = returned (Backlight lcd w)"
| "call OpNoBacklight lcd w = returned (NoBacklight lcd w)"
| "call (OpCreateChar location charmap) lcd w =
     (case CreateChar lcd location charmap w of (r, w1) \<Rightarrow> (r, lcd, w1))"
| "call OpScrollDisplayLeft lcd w = returned (lcd, ScrollDisplayLeft lcd w)"
| "call OpScrollDisplayRight lcd w = returned (lcd, ScrollDisplayRight lcd w)"
| "call OpLeftToRight lcd w = returned (lcd, LeftToRight lcd w)"
| "call OpRightToLeft lcd w = returned (lcd, RightToLeft lcd w)"
| "call OpShiftIncrement lcd w = returned (lcd, ShiftIncrement lcd w)"
| "call OpShiftDecrement lcd w = returned (lcd, ShiftDecrement lcd w)"
| "call OpAutoscroll lcd w = returned (lcd, Autoscroll lcd w)"
| "call OpNoAutoscroll lcd w = returned (lcd, NoAutoscroll lcd w)"

text \<open>The outcome, the session and the trace of a call.\<close>

definition outcome_of :: "(runtime_error + unit) \<times> I2CLCD \<times> world \<Rightarrow> runtime_error + unit" where
  "outcome_of r = fst r"

definition session_of :: "(runtime_error + unit) \<times> I2CLCD \<times> world \<Rightarrow> I2CLCD" where
  "session_of r = fst (snd r)"

definition trace_of :: "(runtime_error + unit) \<times> I2CLCD \<times> world \<Rightarrow> event list" where
  "trace_of r = trace (snd (snd r))"

text \<open>An environment with nothing on the trace and a bus that never fails.\<close>

definition healthy :: world where
  "healthy = \<lparr>trace = [], faults = []\<rparr>"

text \<open>
  A caller's straight-line sequence of method calls; a panic ends it, as an unrecovered
  panic ends the Go program.
\<close>

fun calls :: "op list \<Rightarrow> I2CLCD \<Rightarrow> world \<Rightarrow> (runtime_error + unit) \<times> I2CLCD \<times> world" where
  "calls [] lcd w = (Inr (), lcd, w)"
| "calls (f # fs) lcd w =
     (case call f lcd w of
        (Inl e, lcd1, w1) \<Rightarrow> (Inl e, lcd1, w1)
      | (Inr u, lcd1, w1) \<Rightarrow> calls fs lcd1 w1)"

section \<open>What a transfer looks like on the trace\<close>

text \<open>
  The events of one \<open>write4Bits\<close> of the value \<open>v\<close> for a session at bus address \<open>a\<close>
  whose backlight flag is \<open>bl\<close>, and of one \<open>send\<close> of the byte \<open>v\<close> with mode \<open>m\<close>.
\<close>

definition bl_bit :: "bool \<Rightarrow> byte" where
  "bl_bit bl = (if bl then 0x08 else 0x00)"

definition nibble_events :: "16 word \<Rightarrow> bool \<Rightarrow> byte \<Rightarrow> event list" where
  "nibble_events a bl v =
     [Tx a [v OR bl_bit bl],
      Tx a [(v OR 0x04) OR bl_bit bl], Sleep 1,
      Tx a [(v AND NOT 0x04) OR bl_bit bl], Sleep 1]"

definition byte_events :: "16 word \<Rightarrow> bool \<Rightarrow> byte \<Rightarrow> byte \<Rightarrow> event list" where
  "byte_events a bl v m =
     nibble_events a bl ((v AND 0xF0) OR m) @
     nibble_events a bl ((push_bit 4 v AND 0xF0) OR m)"

text \<open>The bytes put on the bus by a list of events, in order.\<close>

fun tx_bytes :: "event list \<Rightarrow> byte list" where
  "tx_bytes [] = []"
| "tx_bytes (Tx a bs # es) = bs @ tx_bytes es"
| "tx_bytes (Sleep n # es) = tx_bytes es"

text \<open>The delays in a list of events, in order.\<close>

fun sleeps :: "event list \<Rightarrow> nat list" where
  "sleeps [] = []"
| "sleeps (Tx a bs # es) = sleeps es"
| "sleeps (Sleep n # es) = n # sleeps es"

section \<open>Traces of the transport layer\<close>

lemmas lcd_consts =
  LCD_CLEARDISPLAY_def LCD_RETURNHOME_def LCD_ENTRYMODESET_def LCD_DISPLAYCONTROL_def
  LCD_CURSORSHIFT_def LCD_FUNCTIONSET_def LCD_SETCGRAMADDR_def LCD_SETDDRAMADDR_def
  LCD_ENTRYRIGHT_def LCD_ENTRYLEFT_def LCD_ENTRYSHIFTINCREMENT_def
  LCD_ENTRYSHIFTDECREMENT_def LCD_DISPLAYON_def LCD_DISPLAYOFF_def LCD_CURSORON_def
  LCD_CURSOROFF_def LCD_BLINKON_def LCD_BLINKOFF_def LCD_BACKLIGHT_def
  LCD_NOBACKLIGHT_def LCD_MOVELEFT_def LCD_MOVERIGHT_def LCD_SCROLLLEFT_def
  LCD_SCROLLRIGHT_def

lemma trace_bus_Tx: "trace (snd (bus_Tx a bs w)) = trace w @ [Tx a bs]"
  by (simp add: bus_Tx_def split: list.split)

lemma trace_time_Sleep: "trace (time_Sleep n w) = trace w @ [Sleep n]"
  by (simp add: time_Sleep_def)

lemma trace_expanderWrite:
  "trace (expanderWrite lcd d w) = trace w @ [Tx (ucast (addr lcd)) [d OR bl_bit (backlight lcd)]]"
  by (simp add: expanderWrite_def trace_bus_Tx bl_bit_def LCD_BACKLIGHT_def)

lemma trace_write4Bits:
  "trace (write4Bits lcd v w) = trace w @ nibble_events (ucast (addr lcd)) (backlight lcd) v"
  by (simp add: write4Bits_def pulseEnable_def Let_def trace_expanderWrite trace_time_Sleep
      nibble_events_def)

lemma trace_send:
  "trace (send lcd v m w) = trace w @ byte_events (ucast (addr lcd)) (backlight lcd) v m"
  by (simp add: send_def Let_def trace_write4Bits byte_events_def)

lemma trace_sendCommand:
  "trace (sendCommand lcd c w) = trace w @ byte_events (ucast (addr lcd)) (backlight lcd) c 0"
  by (simp add: sendCommand_def trace_send)

lemma trace_sendData:
  "trace (sendData lcd d w) = trace w @ byte_events (ucast (addr lcd)) (backlight lcd) d 1"
  by (simp add: sendData_def trace_send)

section \<open>Traces of the public operations\<close>

lemma trace_Clear:
  "trace (Clear lcd w) =
     trace w @ byte_events (ucast (addr lcd)) (backlight lcd) 0x01 0 @ [Sleep 2]"
  by (simp add: Clear_def trace_time_Sleep trace_sendCommand LCD_CLEARDISPLAY_def)

lemma trace_Home:
  "trace (Home lcd w) =
     trace w @ byte_events (ucast (addr lcd)) (backlight lcd) 0x02 0 @ [Sleep 2]"
  by (simp add: Home_def trace_time_Sleep trace_sendCommand LCD_RETURNHOME_def)

lemma trace_Print:
  "trace (Print lcd cs w) =
     trace w @ concat (map (\<lambda>c. byte_events (ucast (addr lcd)) (backlight lcd) (ucast c) 1) cs)"
  by (induction cs arbitrary: w) (simp_all add: trace_sendData)

lemma trace_SetCursor:
  "trace (SetCursor lcd col row w) =
     trace w @ byte_events (ucast (addr lcd)) (backlight lcd)
       (0x80 OR (col + (if row \<ge> rows lcd then rows lcd - 1 else row) * 0x40)) 0"
  by (simp add: SetCursor_def Let_def trace_sendCommand LCD_SETDDRAMADDR_def)

lemma trace_Backlight:
  "trace (snd (Backlight lcd w)) = trace w @ [Tx (ucast (addr lcd)) [0x08]]"
  by (simp add: Backlight_def Let_def trace_expanderWrite bl_bit_def)

lemma trace_NoBacklight:
  "trace (snd (NoBacklight lcd w)) = trace w @ [Tx (ucast (addr lcd)) [0x00]]"
  by (simp add: NoBacklight_def Let_def trace_expanderWrite bl_bit_def)

lemma trace_DisplayOn:
  "trace (snd (DisplayOn lcd w)) =
     trace w @ byte_events (ucast (addr lcd)) (backlight lcd) 0x0C 0"
  by (simp add: DisplayOn_def Let_def trace_sendCommand lcd_consts)

lemma trace_DisplayOff:
  "trace (snd (DisplayOff lcd w)) =
     trace w @ byte_events (ucast (addr lcd)) (backlight lcd) 0x08 0"
  by (simp add: DisplayOff_def Let_def trace_sendCommand lcd_consts)

lemma trace_CursorOn:
  "trace (snd (CursorOn lcd w)) =
     trace w @ byte_events (ucast (addr lcd)) (backlight lcd) 0x0E 0"
  by (simp add: CursorOn_def Let_def trace_sendCommand lcd_consts)

lemma trace_CursorOff:
  "trace (snd (CursorOff lcd w)) =
     trace w @ byte_events (ucast (addr lcd)) (backlight lcd) 0x0C 0"
  by (simp add: CursorOff_def Let_def trace_sendCommand lcd_consts)

lemma trace_BlinkOn:
  "trace (snd (BlinkOn lcd w)) =
     trace w @ byte_events (ucast (addr lcd)) (backlight lcd) 0x0D 0"
  by (simp add: BlinkOn_def Let_def trace_sendCommand lcd_consts)

lemma trace_BlinkOff:
  "trace (snd (BlinkOff lcd w)) =
     trace w @ byte_events (ucast (addr lcd)) (backlight lcd) 0x0C 0"
  by (simp add: BlinkOff_def Let_def trace_sendCommand lcd_consts)

lemma trace_scroll_entry:
  "trace (ScrollDisplayLeft lcd w) = trace w @ byte_events (ucast (addr lcd)) (backlight lcd) 0x18 0"
  "trace (ScrollDisplayRight lcd w) = trace w @ byte_events (ucast (addr lcd)) (backlight lcd) 0x1C 0"
  "trace (LeftToRight lcd w) = trace w @ byte_events (ucast (addr lcd)) (backlight lcd) 0x06 0"
  "trace (RightToLeft lcd w) = trace w @ byte_events (ucast (addr lcd)) (backlight lcd) 0x04 0"
  "trace (ShiftIncrement lcd w) = trace w @ byte_events (ucast (addr lcd)) (backlight lcd) 0x05 0"
  "trace (ShiftDecrement lcd w) = trace w @ byte_events (ucast (addr lcd)) (backlight lcd) 0x04 0"
  "trace (Autoscroll lcd w) = trace w @ byte_events (ucast (addr lcd)) (backlight lcd) 0x05 0"
  "trace (NoAutoscroll lcd w) = trace w @ byte_events (ucast (addr lcd)) (backlight lcd) 0x04 0"
  by (simp_all add: ScrollDisplayLeft_def ScrollDisplayRight_def LeftToRight_def
      RightToLeft_def ShiftIncrement_def ShiftDecrement_def Autoscroll_def NoAutoscroll_def
      trace_sendCommand lcd_consts)

lemma trace_Init:
  "trace (snd (Init lcd w)) = trace w @
     [Sleep 50] @ byte_events (ucast (addr lcd)) (backlight lcd) 0x03 0 @
     [Sleep 5] @ byte_events (ucast (addr lcd)) (backlight lcd) 0x03 0 @
     [Sleep 5] @ byte_events (ucast (addr lcd)) (backlight lcd) 0x03 0 @
     [Sleep 1] @ byte_events (ucast (addr lcd)) (backlight lcd) 0x02 0 @
     byte_events (ucast (addr lcd)) (backlight lcd) (if rows lcd > 1 then 0x28 else 0x20) 0 @
     byte_events (ucast (addr lcd)) (backlight lcd) 0x0C 0 @
     byte_events (ucast (addr lcd)) (backlight lcd) 0x06 0 @
     byte_events (ucast (addr lcd)) (backlight lcd) 0x01 0 @
     [Sleep 2] @ [Tx (ucast (addr lcd)) [0x08]]"
  by (simp add: Init_def Let_def trace_Backlight trace_time_Sleep trace_sendCommand lcd_consts)

lemma session_Init: "fst (Init lcd w) = lcd\<lparr>backlight := True\<rparr>"
  by (simp add: Init_def Let_def Backlight_def)

lemma CreateChar_loop_outcome:
  "fst (CreateChar_loop lcd charmap i w) =
     (if i < 8 \<and> length charmap < 8 then Inl IndexOutOfRange else Inr ())"
proof (induction lcd charmap i w rule: CreateChar_loop.induct)
  case (1 lcd charmap i w)
  show ?case
  proof (cases "i < 8 \<and> i < length charmap")
    case True
    then show ?thesis using "1.IH" by (subst CreateChar_loop.simps) auto
  next
    case False
    then show ?thesis by (subst CreateChar_loop.simps) auto
  qed
qed

lemma trace_CreateChar_loop:
  "trace (snd (CreateChar_loop lcd charmap i w)) =
     trace w @ concat (map (\<lambda>d. byte_events (ucast (addr lcd)) (backlight lcd) d 1)
                        (take (8 - i) (drop i charmap)))"
proof (induction lcd charmap i w rule: CreateChar_loop.induct)
  case (1 lcd charmap i w)
  show ?case
  proof (cases "i < 8 \<and> i < length charmap")
    case True
    then have "take (8 - i) (drop i charmap) =
        charmap ! i # take (8 - (i + 1)) (drop (i + 1) charmap)"
      by (simp add: Cons_nth_drop_Suc [symmetric] Suc_diff_Suc [symmetric] take_Suc_Cons [symmetric]
          del: take_Suc_Cons)
    with True show ?thesis using "1.IH"
      by (subst CreateChar_loop.simps) (simp add: trace_sendData)
  next
    case False
    then show ?thesis by (subst CreateChar_loop.simps) auto
  qed
qed

lemmas trace_ops =
  trace_Clear trace_Home trace_Print trace_SetCursor trace_Backlight trace_NoBacklight
  trace_DisplayOn trace_DisplayOff trace_CursorOn trace_CursorOff trace_BlinkOn
  trace_BlinkOff trace_scroll_entry trace_Init

lemma trace_CreateChar:
  "trace (snd (CreateChar lcd location charmap w)) =
     trace w @
     byte_events (ucast (addr lcd)) (backlight lcd) (0x40 OR push_bit 3 (location AND 0x07)) 0 @
     concat (map (\<lambda>d. byte_events (ucast (addr lcd)) (backlight lcd) d 1) (take 8 charmap))"
  by (simp add: CreateChar_def Let_def trace_CreateChar_loop trace_sendCommand
      LCD_SETCGRAMADDR_def)

lemma outcome_CreateChar:
  "fst (CreateChar lcd location charmap w) =
     (if length charmap < 8 then Inl IndexOutOfRange else Inr ())"
  by (simp add: CreateChar_def Let_def CreateChar_loop_outcome)

text \<open>
  What a call puts on the trace, the session it leaves and how it ends do not depend
  on the trace so far or on the fault script.
\<close>

lemma trace_call:
  "trace_of (call f lcd w) = trace w @ trace_of (call f lcd healthy)"
  by (cases f)
    (simp_all add: trace_of_def returned_def healthy_def trace_ops trace_CreateChar
      case_prod_unfold)

lemma session_call:
  "session_of (call f lcd w) = session_of (call f lcd healthy)"
  by (cases f)
    (simp_all add: session_of_def returned_def session_Init Backlight_def NoBacklight_def
      DisplayOn_def DisplayOff_def CursorOn_def CursorOff_def BlinkOn_def BlinkOff_def Let_def
      case_prod_unfold)

lemma outcome_call:
  "outcome_of (call f lcd w) = outcome_of (call f lcd healthy)"
  by (cases f)
    (simp_all add: outcome_of_def returned_def outcome_CreateChar case_prod_unfold)

section \<open>Sending one byte\<close>

text \<open>
  C1 (as the code has it). For every byte \<open>v\<close> and mode \<open>m\<close>, \<open>send\<close> puts exactly six
  bytes on the bus, three per nibble: the nibble pattern as it is, the pattern with the
  enable bit 0x04 set, the pattern with the enable bit cleared. The patterns are
  \<open>(v & 0xF0) | m\<close>, then \<open>((v << 4) & 0xF0) | m\<close>, each ORed with the backlight bit of
  the session.
\<close>

theorem send_six_writes:
  "trace (send lcd v m w) = trace w @
     [Tx (ucast (addr lcd)) [((v AND 0xF0) OR m) OR bl_bit (backlight lcd)],
      Tx (ucast (addr lcd)) [(((v AND 0xF0) OR m) OR 0x04) OR bl_bit (backlight lcd)],
      Sleep 1,
      Tx (ucast (addr lcd)) [(((v AND 0xF0) OR m) AND NOT 0x04) OR bl_bit (backlight lcd)],
      Sleep 1,
      Tx (ucast (addr lcd)) [((push_bit 4 v AND 0xF0) OR m) OR bl_bit (backlight lcd)],
      Tx (ucast (addr lcd)) [(((push_bit 4 v AND 0xF0) OR m) OR 0x04) OR bl_bit (backlight lcd)],
      Sleep 1,
      Tx (ucast (addr lcd)) [(((push_bit 4 v AND 0xF0) OR m) AND NOT 0x04) OR bl_bit (backlight lcd)],
      Sleep 1]"
  by (simp add: trace_send byte_events_def nibble_events_def)

text \<open>
  C1 (as the spec states it) fails: sending the data byte 0x41 ('A') with the backlight
  on writes six bytes, not the four of the claim (0x4D, 0x49, 0x1D, 0x19).
\<close>

theorem send_four_writes_counterexample:
  "tx_bytes (trace (send (NewI2CLCD 0x27 16 2) 0x41 1 \<lparr>trace = [], faults = []\<rparr>)) =
     [0x49, 0x4D, 0x49, 0x19, 0x1D, 0x19] \<and>
   tx_bytes (trace (send (NewI2CLCD 0x27 16 2) 0x41 1 \<lparr>trace = [], faults = []\<rparr>)) \<noteq>
     [0x4D, 0x49, 0x1D, 0x19]"
  by (simp add: trace_send byte_events_def nibble_events_def NewI2CLCD_def bl_bit_def)

section \<open>Cursor addressing\<close>

text \<open>
  C6. For every \<open>col\<close> and \<open>row\<close>, \<open>SetCursor\<close> replaces \<open>row\<close> by \<open>rows - 1\<close> when
  \<open>row >= rows\<close>, leaves \<open>col\<close> as it is, and sends exactly one command byte:
  \<open>LCD_SETDDRAMADDR\<close> (0x80) ORed with \<open>col + clamped_row * 0x40\<close>. The arithmetic is
  the source's \<open>uint8\<close> arithmetic.
\<close>

theorem SetCursor_clamps_row:
  "trace (SetCursor lcd col row w) =
     trace w @ byte_events (ucast (addr lcd)) (backlight lcd)
       (LCD_SETDDRAMADDR OR (col + (if row \<ge> rows lcd then rows lcd - 1 else row) * 0x40)) 0"
  by (simp add: trace_SetCursor LCD_SETDDRAMADDR_def)

theorem SetCursor_clamps_row_witness:
  "trace (SetCursor (NewI2CLCD 0x27 16 2) 3 5 healthy) =
     byte_events 0x27 True 0xC3 0 \<and>
   trace (SetCursor (NewI2CLCD 0x27 16 2) 200 0 healthy) =
     byte_events 0x27 True 0xC8 0"
  using SetCursor_clamps_row [of "NewI2CLCD 0x27 16 2" 3 5 healthy]
    SetCursor_clamps_row [of "NewI2CLCD 0x27 16 2" 200 0 healthy]
  by (simp add: NewI2CLCD_def healthy_def LCD_SETDDRAMADDR_def)

section \<open>Custom characters\<close>

text \<open>
  C7. For every location byte and every glyph of 8 bytes, \<open>CreateChar\<close> returns
  normally, having sent the set-CGRAM-address command with the address
  \<open>(location & 7) << 3\<close> and then exactly the 8 glyph bytes as data, in order. Only
  the low three bits of the location count: location 9 does what location 1 does.
\<close>

theorem CreateChar_masks_location:
  assumes "length charmap = 8"
  shows "fst (CreateChar lcd location charmap w) = Inr () \<and>
         trace (snd (CreateChar lcd location charmap w)) =
           trace w @
           byte_events (ucast (addr lcd)) (backlight lcd)
             (LCD_SETCGRAMADDR OR push_bit 3 (location AND 0x07)) 0 @
           concat (map (\<lambda>d. byte_events (ucast (addr lcd)) (backlight lcd) d 1) charmap) \<and>
         CreateChar lcd 9 charmap w = CreateChar lcd 1 charmap w \<and>
         CreateChar lcd location charmap w = CreateChar lcd (location AND 0x07) charmap w"
proof -
  have "fst (CreateChar lcd location charmap w) = Inr ()"
    using assms by (simp add: outcome_CreateChar)
  moreover have "trace (snd (CreateChar lcd location charmap w)) =
      trace w @
      byte_events (ucast (addr lcd)) (backlight lcd)
        (LCD_SETCGRAMADDR OR push_bit 3 (location AND 0x07)) 0 @
      concat (map (\<lambda>d. byte_events (ucast (addr lcd)) (backlight lcd) d 1) charmap)"
    using assms by (simp add: trace_CreateChar LCD_SETCGRAMADDR_def)
  moreover have "CreateChar lcd 9 charmap w = CreateChar lcd 1 charmap w"
    by (simp add: CreateChar_def)
  moreover have "CreateChar lcd location charmap w = CreateChar lcd (location AND 0x07) charmap w"
    by (simp add: CreateChar_def Let_def and.assoc)
  ultimately show ?thesis by blast
qed

theorem CreateChar_masks_location_witness:
  "length [0x00, 0x0A, 0x1F, 0x1F, 0x0E, 0x04, 0x00, 0x00 :: byte] = 8 \<and>
   fst (CreateChar (NewI2CLCD 0x27 16 2) 9
          [0x00, 0x0A, 0x1F, 0x1F, 0x0E, 0x04, 0x00, 0x00] healthy) = Inr () \<and>
   CreateChar (NewI2CLCD 0x27 16 2) 9 [0x00, 0x0A, 0x1F, 0x1F, 0x0E, 0x04, 0x00, 0x00] healthy =
   CreateChar (NewI2CLCD 0x27 16 2) 1 [0x00, 0x0A, 0x1F, 0x1F, 0x0E, 0x04, 0x00, 0x00] healthy"
proof -
  have len: "length [0x00, 0x0A, 0x1F, 0x1F, 0x0E, 0x04, 0x00, 0x00 :: byte] = 8"
    by simp
  from CreateChar_masks_location [OF len, of "NewI2CLCD 0x27 16 2" 9 healthy] len
  show ?thesis by blast
qed

text \<open>
  C10. \<open>CreateChar\<close> reads \<open>charmap[0]\<close> to \<open>charmap[7]\<close> whatever the length of the
  slice. With fewer than 8 bytes it panics with an index error, after the address
  command and the data bytes that do exist have been sent; with 8 bytes or more it
  returns normally and sends the first 8.
\<close>

theorem CreateChar_short_glyph_panics:
  "(length charmap < 8 \<longrightarrow>
      fst (CreateChar lcd location charmap w) = Inl IndexOutOfRange \<and>
      trace (snd (CreateChar lcd location charmap w)) =
        trace w @
        byte_events (ucast (addr lcd)) (backlight lcd)
          (LCD_SETCGRAMADDR OR push_bit 3 (location AND 0x07)) 0 @
        concat (map (\<lambda>d. byte_events (ucast (addr lcd)) (backlight lcd) d 1) charmap)) \<and>
   (8 \<le> length charmap \<longrightarrow>
      fst (CreateChar lcd location charmap w) = Inr () \<and>
      trace (snd (CreateChar lcd location charmap w)) =
        trace w @
        byte_events (ucast (addr lcd)) (backlight lcd)
          (LCD_SETCGRAMADDR OR push_bit 3 (location AND 0x07)) 0 @
        concat (map (\<lambda>d. byte_events (ucast (addr lcd)) (backlight lcd) d 1)
                  (map (\<lambda>i. charmap ! i) [0..<8])))"
proof (intro conjI impI)
  assume short: "length charmap < 8"
  show "fst (CreateChar lcd location charmap w) = Inl IndexOutOfRange"
    using short by (simp add: outcome_CreateChar)
  show "trace (snd (CreateChar lcd location charmap w)) =
        trace w @
        byte_events (ucast (addr lcd)) (backlight lcd)
          (LCD_SETCGRAMADDR OR push_bit 3 (location AND 0x07)) 0 @
        concat (map (\<lambda>d. byte_events (ucast (addr lcd)) (backlight lcd) d 1) charmap)"
    using short by (simp add: trace_CreateChar LCD_SETCGRAMADDR_def)
next
  assume long: "8 \<le> length charmap"
  show "fst (CreateChar lcd location charmap w) = Inr ()"
    using long by (simp add: outcome_CreateChar)
  have "take 8 charmap = take 8 (map (\<lambda>i. charmap ! i) [0..<length charmap])"
    by (simp add: map_nth)
  also have "\<dots> = map (\<lambda>i. charmap ! i) [0..<8]"
    using long by (simp add: take_map del: upt_Suc)
  finally have "take 8 charmap = map (\<lambda>i. charmap ! i) [0..<8]" .
  then show "trace (snd (CreateChar lcd location charmap w)) =
        trace w @
        byte_events (ucast (addr lcd)) (backlight lcd)
          (LCD_SETCGRAMADDR OR push_bit 3 (location AND 0x07)) 0 @
        concat (map (\<lambda>d. byte_events (ucast (addr lcd)) (backlight lcd) d 1)
                  (map (\<lambda>i. charmap ! i) [0..<8]))"
    by (simp add: trace_CreateChar LCD_SETCGRAMADDR_def del: upt_Suc)
qed

theorem CreateChar_short_glyph_panics_witness:
  "length [1, 2, 3 :: byte] < 8 \<and>
   fst (CreateChar (NewI2CLCD 0x27 16 2) 0 [1, 2, 3] healthy) = Inl IndexOutOfRange \<and>
   8 \<le> length [1, 2, 3, 4, 5, 6, 7, 8, 9 :: byte] \<and>
   fst (CreateChar (NewI2CLCD 0x27 16 2) 0 [1, 2, 3, 4, 5, 6, 7, 8, 9] healthy) = Inr ()"
  using CreateChar_short_glyph_panics [of "[1, 2, 3]" "NewI2CLCD 0x27 16 2" 0 healthy]
    CreateChar_short_glyph_panics
      [of "[1, 2, 3, 4, 5, 6, 7, 8, 9]" "NewI2CLCD 0x27 16 2" 0 healthy]
  by simp

section \<open>Printing\<close>

text \<open>
  C8. \<open>Print\<close> sends exactly one data byte per code point of the string, in order,
  and the byte is the code point reduced to its low 8 bits. The string is given as
  the sequence of runes that Go's \<open>range\<close> yields for it.
\<close>

theorem Print_one_byte_per_rune:
  "trace (Print lcd cs w) =
     trace w @
     concat (map (\<lambda>c. byte_events (ucast (addr lcd)) (backlight lcd) (ucast c) 1) cs) \<and>
   unat (ucast (c :: rune) :: byte) = unat c mod 256"
  by (simp add: trace_Print unsigned_ucast_eq take_bit_eq_mod)

section \<open>The backlight bit\<close>

lemma tx_bytes_append [simp]: "tx_bytes (xs @ ys) = tx_bytes xs @ tx_bytes ys"
  by (induction xs rule: tx_bytes.induct) simp_all

lemma set_tx_bytes_concat_map:
  "set (tx_bytes (concat (map f xs))) = (\<Union>x \<in> set xs. set (tx_bytes (f x)))"
  by (induction xs) simp_all

lemma bit3_bl_bit: "bit (bl_bit bl) 3 = bl"
  by (simp add: bl_bit_def bit_simps)

lemma bit3_nibble_events:
  "\<not> bit v 3 \<Longrightarrow> list_all (\<lambda>b. bit b 3 = bl) (tx_bytes (nibble_events a bl v))"
  by (simp add: nibble_events_def bit_simps bit3_bl_bit)

lemma bit3_byte_events_cmd:
  "list_all (\<lambda>b. bit b 3 = bl) (tx_bytes (byte_events a bl v 0))"
  by (simp add: byte_events_def bit3_nibble_events bit_simps)

lemma bit3_byte_events_data:
  "list_all (\<lambda>b. bit b 3 = bl) (tx_bytes (byte_events a bl v 1))"
  by (simp add: byte_events_def bit3_nibble_events bit_simps)


lemma bit3_cmd: "b \<in> set (tx_bytes (byte_events a bl v 0)) \<Longrightarrow> bit b 3 = bl"
  using bit3_byte_events_cmd [of bl a v] by (simp add: list_all_iff)

lemma bit3_data: "b \<in> set (tx_bytes (byte_events a bl v 1)) \<Longrightarrow> bit b 3 = bl"
  using bit3_byte_events_data [of bl a v] by (simp add: list_all_iff)

lemma new_events_drop: "drop (length xs) (xs @ ys) = ys"
  by simp

lemma tx_bytes_Init:
  "tx_bytes (drop (length (trace w)) (trace (snd (Init lcd w)))) =
     (tx_bytes (byte_events (ucast (addr lcd)) (backlight lcd) 0x03 0) @
      tx_bytes (byte_events (ucast (addr lcd)) (backlight lcd) 0x03 0) @
      tx_bytes (byte_events (ucast (addr lcd)) (backlight lcd) 0x03 0) @
      tx_bytes (byte_events (ucast (addr lcd)) (backlight lcd) 0x02 0) @
      tx_bytes (byte_events (ucast (addr lcd)) (backlight lcd)
        (if rows lcd > 1 then 0x28 else 0x20) 0) @
      tx_bytes (byte_events (ucast (addr lcd)) (backlight lcd) 0x0C 0) @
      tx_bytes (byte_events (ucast (addr lcd)) (backlight lcd) 0x06 0) @
      tx_bytes (byte_events (ucast (addr lcd)) (backlight lcd) 0x01 0)) @ [0x08]"
  by (simp only: trace_Init new_events_drop) simp

lemma backlight_steady:
  "f \<noteq> OpInit \<Longrightarrow> f \<noteq> OpBacklight \<Longrightarrow> f \<noteq> OpNoBacklight \<Longrightarrow>
   backlight (session_of (call f lcd w)) = backlight lcd"
  by (cases f)
    (simp_all add: session_of_def returned_def DisplayOn_def DisplayOff_def CursorOn_def
      CursorOff_def BlinkOn_def BlinkOff_def Let_def case_prod_unfold)

lemma bit3_steady:
  "f \<noteq> OpInit \<Longrightarrow> f \<noteq> OpBacklight \<Longrightarrow> f \<noteq> OpNoBacklight \<Longrightarrow>
   b \<in> set (tx_bytes (drop (length (trace w)) (trace_of (call f lcd w)))) \<Longrightarrow>
   bit b 3 = backlight lcd"
  by (cases f)
    (auto simp: trace_of_def returned_def trace_ops trace_CreateChar case_prod_unfold
      set_tx_bytes_concat_map dest: bit3_cmd bit3_data)

text \<open>
  C5. Every byte that a public operation writes to the expander has bit 0x08 set
  exactly when the session's backlight flag is set at the moment of the write. For
  every operation but \<open>Init\<close>, \<open>Backlight\<close> and \<open>NoBacklight\<close> the flag does not change
  and all bytes carry it. \<open>Backlight\<close> and \<open>NoBacklight\<close> assign the flag first and
  their one write carries the new value. \<open>Init\<close> writes everything under the flag it
  was called with and then calls \<open>Backlight\<close>, whose write, the last one, has the bit
  set.
\<close>

theorem backlight_bit_on_every_write:
  "(f \<notin> {OpInit, OpBacklight, OpNoBacklight} \<longrightarrow>
      backlight (session_of (call f lcd w)) = backlight lcd \<and>
      (\<forall>b \<in> set (tx_bytes (drop (length (trace w)) (trace_of (call f lcd w)))).
         bit b 3 = backlight lcd)) \<and>
   (f \<in> {OpBacklight, OpNoBacklight} \<longrightarrow>
      backlight (session_of (call f lcd w)) = (f = OpBacklight) \<and>
      (\<forall>b \<in> set (tx_bytes (drop (length (trace w)) (trace_of (call f lcd w)))).
         bit b 3 = backlight (session_of (call f lcd w)))) \<and>
   (f = OpInit \<longrightarrow>
      (\<forall>b \<in> set (butlast (tx_bytes (drop (length (trace w)) (trace_of (call f lcd w))))).
         bit b 3 = backlight lcd) \<and>
      backlight (session_of (call f lcd w)) \<and>
      bit (last (tx_bytes (drop (length (trace w)) (trace_of (call f lcd w))))) 3)"
proof (intro conjI impI)
  assume "f \<notin> {OpInit, OpBacklight, OpNoBacklight}"
  then have f: "f \<noteq> OpInit" "f \<noteq> OpBacklight" "f \<noteq> OpNoBacklight" by auto
  show "backlight (session_of (call f lcd w)) = backlight lcd"
    using f by (rule backlight_steady)
  show "\<forall>b \<in> set (tx_bytes (drop (length (trace w)) (trace_of (call f lcd w)))).
      bit b 3 = backlight lcd"
    using bit3_steady [OF f] by blast
next
  assume f: "f \<in> {OpBacklight, OpNoBacklight}"
  show "backlight (session_of (call f lcd w)) = (f = OpBacklight)"
    using f by (auto simp: session_of_def returned_def Backlight_def NoBacklight_def Let_def)
  show "\<forall>b \<in> set (tx_bytes (drop (length (trace w)) (trace_of (call f lcd w)))).
      bit b 3 = backlight (session_of (call f lcd w))"
    using f
    by (auto simp: session_of_def trace_of_def returned_def trace_expanderWrite bl_bit_def
        Backlight_def NoBacklight_def Let_def bit_simps)
next
  assume f: "f = OpInit"
  have pre: "list_all (\<lambda>b. bit b 3 = backlight lcd)
      (butlast (tx_bytes (drop (length (trace w)) (trace (snd (Init lcd w))))))"
    by (simp only: tx_bytes_Init butlast_snoc) (simp add: bit3_byte_events_cmd)
  show "\<forall>b \<in> set (butlast (tx_bytes (drop (length (trace w)) (trace_of (call f lcd w))))).
      bit b 3 = backlight lcd"
    using pre f by (simp add: list_all_iff trace_of_def returned_def)
  show "backlight (session_of (call f lcd w))"
    using f by (simp add: session_of_def returned_def session_Init)
  have "bit (last (tx_bytes (drop (length (trace w)) (trace (snd (Init lcd w)))))) 3"
    by (simp only: tx_bytes_Init last_snoc) (simp add: bit_simps)
  then show "bit (last (tx_bytes (drop (length (trace w)) (trace_of (call f lcd w))))) 3"
    using f by (simp add: trace_of_def returned_def)
qed

theorem backlight_bit_on_every_write_witness:
  "OpClear \<notin> {OpInit, OpBacklight, OpNoBacklight} \<and>
   list_all (\<lambda>b. bit b 3 = False)
     (tx_bytes (drop (length (trace healthy))
        (trace_of (call OpClear ((NewI2CLCD 0x27 16 2)\<lparr>backlight := False\<rparr>) healthy)))) \<and>
   OpNoBacklight \<in> {OpBacklight, OpNoBacklight} \<and>
   list_all (\<lambda>b. bit b 3 = False)
     (tx_bytes (drop (length (trace healthy))
        (trace_of (call OpNoBacklight (NewI2CLCD 0x27 16 2) healthy)))) \<and>
   bit (last (tx_bytes (drop (length (trace healthy))
        (trace_of (call OpInit ((NewI2CLCD 0x27 16 2)\<lparr>backlight := False\<rparr>) healthy))))) 3"
  using backlight_bit_on_every_write [of OpClear "(NewI2CLCD 0x27 16 2)\<lparr>backlight := False\<rparr>" healthy]
    backlight_bit_on_every_write [of OpNoBacklight "NewI2CLCD 0x27 16 2" healthy]
    backlight_bit_on_every_write [of OpInit "(NewI2CLCD 0x27 16 2)\<lparr>backlight := False\<rparr>" healthy]
  by (simp add: NewI2CLCD_def session_of_def returned_def NoBacklight_def list_all_iff)

section \<open>Initialisation\<close>

text \<open>
  C4 (as the code has it). \<open>Init\<close> waits 50 ms, then sends the command bytes 0x03,
  0x03, 0x03 and 0x02, each as a full byte send of two nibble transfers (nibble 0x0,
  then nibble 0x3 or 0x2), with delays of 5 ms, 5 ms and 1 ms after the three 0x03
  bytes; then function-set (0x28 when \<open>rows > 1\<close>, else 0x20), display-control (0x0C),
  entry-mode (0x06) and clear-display (0x01) as full byte sends, 2 ms after clear, and
  last the backlight refresh write with the flag set.
\<close>

theorem Init_sequence:
  "fst (Init lcd w) = lcd\<lparr>backlight := True\<rparr> \<and>
   trace (snd (Init lcd w)) = trace w @
     [Sleep 50] @ byte_events (ucast (addr lcd)) (backlight lcd) 0x03 0 @
     [Sleep 5] @ byte_events (ucast (addr lcd)) (backlight lcd) 0x03 0 @
     [Sleep 5] @ byte_events (ucast (addr lcd)) (backlight lcd) 0x03 0 @
     [Sleep 1] @ byte_events (ucast (addr lcd)) (backlight lcd) 0x02 0 @
     byte_events (ucast (addr lcd)) (backlight lcd)
       (if rows lcd > 1 then LCD_FUNCTIONSET OR 0x08 else LCD_FUNCTIONSET) 0 @
     byte_events (ucast (addr lcd)) (backlight lcd) (LCD_DISPLAYCONTROL OR LCD_DISPLAYON) 0 @
     byte_events (ucast (addr lcd)) (backlight lcd) (LCD_ENTRYMODESET OR LCD_ENTRYLEFT) 0 @
     byte_events (ucast (addr lcd)) (backlight lcd) LCD_CLEARDISPLAY 0 @
     [Sleep 2] @ [Tx (ucast (addr lcd)) [LCD_BACKLIGHT]] \<and>
   byte_events a bl 0x03 0 = nibble_events a bl 0x00 @ nibble_events a bl 0x30 \<and>
   byte_events a bl 0x02 0 = nibble_events a bl 0x00 @ nibble_events a bl 0x20"
  by (simp add: session_Init trace_Init lcd_consts byte_events_def)

text \<open>
  C4 (as the spec states it) fails: between the 50 ms delay and the first 5 ms delay
  a 16x2 session puts two nibble transfers on the bus, the first with data nibble 0x0
  and the second with 0x3, not the single transfer of nibble 0x3.
\<close>

theorem Init_single_nibble_counterexample:
  "take 12 (trace (snd (Init (NewI2CLCD 0x27 16 2) healthy))) =
     [Sleep 50,
      Tx 0x27 [0x08], Tx 0x27 [0x0C], Sleep 1, Tx 0x27 [0x08], Sleep 1,
      Tx 0x27 [0x38], Tx 0x27 [0x3C], Sleep 1, Tx 0x27 [0x38], Sleep 1,
      Sleep 5] \<and>
   take 7 (trace (snd (Init (NewI2CLCD 0x27 16 2) healthy))) \<noteq>
     [Sleep 50] @ nibble_events 0x27 True 0x30 @ [Sleep 5]"
  by (simp add: trace_Init healthy_def NewI2CLCD_def byte_events_def nibble_events_def bl_bit_def)

section \<open>Delays of the steady-state operations\<close>

text \<open>
  C9. \<open>Clear\<close> and \<open>Home\<close> send their one command byte (0x01, 0x02) and then
  wait 2 ms. Cursor positioning, the entry-mode commands, the display, cursor and
  blink commands, scrolling, custom character definition and printing put nothing
  but byte transfers on the trace, and the only delays of a byte transfer are the
  four 1 ms settles after the enable edges.
\<close>

theorem Clear_Home_only_delays:
  "trace (Clear lcd w) =
     trace w @ byte_events (ucast (addr lcd)) (backlight lcd) LCD_CLEARDISPLAY 0 @ [Sleep 2] \<and>
   trace (Home lcd w) =
     trace w @ byte_events (ucast (addr lcd)) (backlight lcd) LCD_RETURNHOME 0 @ [Sleep 2] \<and>
   trace (SetCursor lcd col row w) =
     trace w @ byte_events (ucast (addr lcd)) (backlight lcd)
       (0x80 OR (col + (if row \<ge> rows lcd then rows lcd - 1 else row) * 0x40)) 0 \<and>
   trace (LeftToRight lcd w) = trace w @ byte_events (ucast (addr lcd)) (backlight lcd) 0x06 0 \<and>
   trace (RightToLeft lcd w) = trace w @ byte_events (ucast (addr lcd)) (backlight lcd) 0x04 0 \<and>
   trace (ShiftIncrement lcd w) = trace w @ byte_events (ucast (addr lcd)) (backlight lcd) 0x05 0 \<and>
   trace (ShiftDecrement lcd w) = trace w @ byte_events (ucast (addr lcd)) (backlight lcd) 0x04 0 \<and>
   trace (Autoscroll lcd w) = trace w @ byte_events (ucast (addr lcd)) (backlight lcd) 0x05 0 \<and>
   trace (NoAutoscroll lcd w) = trace w @ byte_events (ucast (addr lcd)) (backlight lcd) 0x04 0 \<and>
   trace (snd (DisplayOn lcd w)) = trace w @ byte_events (ucast (addr lcd)) (backlight lcd) 0x0C 0 \<and>
   trace (snd (DisplayOff lcd w)) = trace w @ byte_events (ucast (addr lcd)) (backlight lcd) 0x08 0 \<and>
   trace (snd (CursorOn lcd w)) = trace w @ byte_events (ucast (addr lcd)) (backlight lcd) 0x0E 0 \<and>
   trace (snd (CursorOff lcd w)) = trace w @ byte_events (ucast (addr lcd)) (backlight lcd) 0x0C 0 \<and>
   trace (snd (BlinkOn lcd w)) = trace w @ byte_events (ucast (addr lcd)) (backlight lcd) 0x0D 0 \<and>
   trace (snd (BlinkOff lcd w)) = trace w @ byte_events (ucast (addr lcd)) (backlight lcd) 0x0C 0 \<and>
   trace (ScrollDisplayLeft lcd w) = trace w @ byte_events (ucast (addr lcd)) (backlight lcd) 0x18 0 \<and>
   trace (ScrollDisplayRight lcd w) = trace w @ byte_events (ucast (addr lcd)) (backlight lcd) 0x1C 0 \<and>
   trace (snd (CreateChar lcd location charmap w)) =
     trace w @
     byte_events (ucast (addr lcd)) (backlight lcd) (0x40 OR push_bit 3 (location AND 0x07)) 0 @
     concat (map (\<lambda>d. byte_events (ucast (addr lcd)) (backlight lcd) d 1) (take 8 charmap)) \<and>
   trace (Print lcd cs w) =
     trace w @
     concat (map (\<lambda>c. byte_events (ucast (addr lcd)) (backlight lcd) (ucast c) 1) cs) \<and>
   sleeps (byte_events a bl v m) = [1, 1, 1, 1]"
  unfolding LCD_CLEARDISPLAY_def LCD_RETURNHOME_def
  by (intro conjI)
    (simp_all only: trace_ops trace_CreateChar, simp add: byte_events_def nibble_events_def)

section \<open>Display, cursor and blink flags\<close>

text \<open>
  C2 (what the code does). After \<open>DisplayOn\<close>, \<open>CursorOn\<close>, \<open>BlinkOff\<close> on a new
  session the fields say display on, cursor on, blink off, but the last command byte
  sent is 0x0C (display-control, display on), not 0x0E: \<open>BlinkOff\<close> sends the constant
  \<open>LCD_DISPLAYCONTROL | LCD_DISPLAYON | LCD_BLINKOFF\<close> and does not read the
  \<open>cursor\<close> field that \<open>CursorOn\<close> has set.
\<close>

theorem flag_toggles_drop_cursor_bit:
  "session_of (calls [OpDisplayOn, OpCursorOn, OpBlinkOff] (NewI2CLCD 0x27 16 2) healthy) =
     \<lparr>addr = 0x27, cols = 16, rows = 2,
      backlight = True, display = True, cursor = True, blink = False\<rparr> \<and>
   trace_of (calls [OpDisplayOn, OpCursorOn, OpBlinkOff] (NewI2CLCD 0x27 16 2) healthy) =
     byte_events 0x27 True 0x0C 0 @ byte_events 0x27 True 0x0E 0 @ byte_events 0x27 True 0x0C 0 \<and>
   byte_events 0x27 True 0x0C 0 \<noteq> byte_events 0x27 True 0x0E 0"
  by (simp add: session_of_def trace_of_def returned_def healthy_def NewI2CLCD_def
      DisplayOn_def CursorOn_def BlinkOff_def Let_def trace_sendCommand lcd_consts
      byte_events_def nibble_events_def bl_bit_def)

section \<open>Transport failures\<close>

lemma calls_independent:
  "outcome_of (calls fs lcd w) = outcome_of (calls fs lcd healthy) \<and>
   session_of (calls fs lcd w) = session_of (calls fs lcd healthy) \<and>
   trace_of (calls fs lcd w) = trace w @ trace_of (calls fs lcd healthy)"
proof (induction fs arbitrary: lcd w)
  case Nil
  show ?case by (simp add: outcome_of_def session_of_def trace_of_def healthy_def)
next
  case (Cons f fs)
  obtain r lcd1 w1 where run: "call f lcd w = (r, lcd1, w1)"
    by (cases "call f lcd w") auto
  obtain r' lcd1' h1 where ref: "call f lcd healthy = (r', lcd1', h1)"
    by (cases "call f lcd healthy") auto
  have same: "r' = r" "lcd1' = lcd1" and tr: "trace w1 = trace w @ trace h1"
    using outcome_call [of f lcd w] session_call [of f lcd w] trace_call [of f lcd w] run ref
    by (simp_all add: outcome_of_def session_of_def trace_of_def)
  show ?case
  proof (cases r)
    case (Inl e)
    then show ?thesis using run ref same tr
      by (simp add: outcome_of_def session_of_def trace_of_def)
  next
    case (Inr u)
    have a: "trace_of (calls fs lcd1 w1) = trace w1 @ trace_of (calls fs lcd1 healthy)"
      and b: "trace_of (calls fs lcd1 h1) = trace h1 @ trace_of (calls fs lcd1 healthy)"
      and c: "outcome_of (calls fs lcd1 w1) = outcome_of (calls fs lcd1 h1)"
      and d: "session_of (calls fs lcd1 w1) = session_of (calls fs lcd1 h1)"
      using Cons.IH [of lcd1 w1] Cons.IH [of lcd1 h1] by simp_all
    show ?thesis using Inr run ref same tr a b c d by simp
  qed
qed

text \<open>
  C3 (as the code has it). \<open>expanderWrite\<close> drops the error of the bus write, so no
  public operation reports a transport failure. Whatever the fault script and the
  trace so far, a call ends the same way, leaves the same session and attempts the
  same writes and delays as on a bus that never fails; the same holds for any
  sequence of calls, so an operation after a failed one attempts its writes as usual.
\<close>

theorem transport_errors_discarded:
  "outcome_of (call f lcd w) = outcome_of (call f lcd healthy) \<and>
   session_of (call f lcd w) = session_of (call f lcd healthy) \<and>
   trace_of (call f lcd w) = trace w @ trace_of (call f lcd healthy) \<and>
   outcome_of (calls fs lcd w) = outcome_of (calls fs lcd healthy) \<and>
   session_of (calls fs lcd w) = session_of (calls fs lcd healthy) \<and>
   trace_of (calls fs lcd w) = trace w @ trace_of (calls fs lcd healthy)"
  using outcome_call [of f lcd w] session_call [of f lcd w] trace_call [of f lcd w]
    calls_independent [of fs lcd w]
  by blast

text \<open>
  C3 (as the spec states it) fails: on a bus where every write fails, \<open>Tx\<close> answers
  \<open>TransportFailure\<close>, yet \<open>Clear\<close> returns normally after attempting all six writes
  and its delays, exactly as on a healthy bus.
\<close>

theorem transport_error_surfaces_counterexample:
  "fst (bus_Tx 0x27 [0x08] \<lparr>trace = [], faults = [True, True, True, True, True, True]\<rparr>) =
     Some TransportFailure \<and>
   call OpClear (NewI2CLCD 0x27 16 2)
     \<lparr>trace = [], faults = [True, True, True, True, True, True]\<rparr> =
     (Inr (), NewI2CLCD 0x27 16 2,
      \<lparr>trace = [Tx 0x27 [0x08], Tx 0x27 [0x0C], Sleep 1, Tx 0x27 [0x08], Sleep 1,
                Tx 0x27 [0x18], Tx 0x27 [0x1C], Sleep 1, Tx 0x27 [0x18], Sleep 1, Sleep 2],
       faults = []\<rparr>) \<and>
   call OpClear (NewI2CLCD 0x27 16 2) healthy =
     (Inr (), NewI2CLCD 0x27 16 2,
      \<lparr>trace = [Tx 0x27 [0x08], Tx 0x27 [0x0C], Sleep 1, Tx 0x27 [0x08], Sleep 1,
                Tx 0x27 [0x18], Tx 0x27 [0x1C], Sleep 1, Tx 0x27 [0x18], Sleep 1, Sleep 2],
       faults = []\<rparr>)"
  by (simp add: returned_def healthy_def Clear_def sendCommand_def send_def write4Bits_def
      pulseEnable_def expanderWrite_def bus_Tx_def time_Sleep_def NewI2CLCD_def Let_def
      lcd_consts)

end
